theory Spec2Isabelle
  imports Main
begin

section \<open>Outcomes of a Go call\<close>

text \<open>
  A Go call either returns or panics. A panic unwinds the stack, but the effects performed
  before it stay in the world, so every effectful operation below returns its outcome
  together with the state it leaves behind.
\<close>

datatype 'a res = Ok 'a | Panics string

section \<open>Package webapputil: the request identifier (request\_id.go)\<close>

subsection \<open>context.Context and http.Request\<close>

text \<open>
  A context key is an \<^verbatim>\<open>interface{}\<close> compared with \<^verbatim>\<open>==\<close>, which compares the dynamic
  type too. The source declares the unexported type \<^verbatim>\<open>requestIDKeyType\<close> and its only
  value \<^verbatim>\<open>requestIDKey\<close>; every key made by other code has another dynamic type and is a
  \<open>ForeignKey\<close> here.

  A context value is an \<^verbatim>\<open>interface{}\<close> as well: nil, a \<^verbatim>\<open>string\<close>, or a value of some
  other dynamic type. Only the second passes the type assertion \<^verbatim>\<open>.(string)\<close>.
\<close>

datatype 'k key = requestIDKey | ForeignKey 'k

datatype 'v any = AnyNil | AnyString string | AnyOther 'v

text \<open>
  The contexts of package context: the empty root, a value node made by
  \<^verbatim>\<open>context.WithValue\<close>, and the cancellation and deadline nodes, which hold no value of
  their own and hand every lookup of a key to their parent.
\<close>

datatype ('k, 'v) go_context =
    Background
  | WithValue "('k, 'v) go_context" "'k key" "'v any"
  | WithCancel "('k, 'v) go_context"

fun Value :: "('k, 'v) go_context \<Rightarrow> 'k key \<Rightarrow> 'v any" where
  "Value Background k = AnyNil"
| "Value (WithValue parent k' v) k = (if k' = k then v else Value parent k)"
| "Value (WithCancel parent) k = Value parent k"

text \<open>The keys under which some node of a context holds a value.\<close>

fun ctx_keys :: "('k, 'v) go_context \<Rightarrow> 'k key set" where
  "ctx_keys Background = {}"
| "ctx_keys (WithValue parent k v) = insert k (ctx_keys parent)"
| "ctx_keys (WithCancel parent) = ctx_keys parent"

type_synonym Header = "string \<rightharpoonup> string list"

text \<open>
  The fields of \<^verbatim>\<open>http.Request\<close> a handler reads, and the unexported field \<^verbatim>\<open>ctx\<close>, which
  is nil (\<open>None\<close>) in a request that was never given a context.
\<close>

record ('k, 'v) Request =
  Method :: string
  URL :: string
  Header :: Header
  Body :: string
  ctx :: "('k, 'v) go_context option"

text \<open>\<^verbatim>\<open>r.Context()\<close> returns the background context when the field is nil.\<close>

definition Context :: "('k, 'v) Request \<Rightarrow> ('k, 'v) go_context" where
  "Context r = (case ctx r of None \<Rightarrow> Background | Some c \<Rightarrow> c)"

text \<open>
  \<^verbatim>\<open>r.WithContext(ctx)\<close> returns a shallow copy of the request with the context replaced.
  It panics on a nil context; a value of type \<open>context\<close> is never nil.
\<close>

definition WithContext :: "('k, 'v) Request \<Rightarrow> ('k, 'v) go_context \<Rightarrow> ('k, 'v) Request" where
  "WithContext r c = r\<lparr>ctx := Some c\<rparr>"

subsection \<open>RequestID and RequestIDMiddleware\<close>

text \<open>
  \<^verbatim>\<open>return r.Context().Value(requestIDKey).(string)\<close>: the single-value type assertion
  panics when the interface is nil or holds a value that is not a \<^verbatim>\<open>string\<close>.
\<close>

definition RequestID :: "('k, 'v) Request \<Rightarrow> string res" where
  "RequestID r =
     (case Value (Context r) requestIDKey of
        AnyString s \<Rightarrow> Ok s
      | AnyNil \<Rightarrow> Panics ''interface conversion: interface {} is nil, not string''
      | AnyOther v \<Rightarrow> Panics ''interface conversion: interface {} is not string'')"

text \<open>
  \<^verbatim>\<open>RequestIDFunc\<close> and \<^verbatim>\<open>http.Handler\<close> are code of the caller. Both may have effects and
  may panic: they are functions on an ambient state \<open>'st\<close> that the middleware threads
  through. The generator is given the pointer \<^verbatim>\<open>*http.Request\<close>, so it can also change the
  request it points to (set a header, swap the context by assigning to \<^verbatim>\<open>*req\<close>): besides
  the identifier it returns the request as it leaves it. The middleware reads
  \<^verbatim>\<open>r.Context()\<close> and makes its copy \<^verbatim>\<open>r.WithContext(ctx)\<close> only after the generator
  returned, that is, from the request as the generator left it. The response writer \<open>'w\<close>
  is a reference the middleware only hands on. What a handler leaves in the copy it is
  given is not followed further.
\<close>

type_synonym ('k, 'v, 'st) RequestIDFunc =
  "('k, 'v) Request \<Rightarrow> 'st \<Rightarrow> string res \<times> ('k, 'v) Request \<times> 'st"

type_synonym ('w, 'k, 'v, 'st) Handler =
  "'w \<Rightarrow> ('k, 'v) Request \<Rightarrow> 'st \<Rightarrow> unit res \<times> 'st"

definition RequestIDMiddleware ::
  "('w, 'k, 'v, 'st) Handler \<Rightarrow> ('k, 'v, 'st) RequestIDFunc \<Rightarrow> ('w, 'k, 'v, 'st) Handler" where
  "RequestIDMiddleware next fn = (\<lambda>w r s.
     case fn r s of
       (Panics msg, r1, s1) \<Rightarrow> (Panics msg, s1)
     | (Ok reqID, r1, s1) \<Rightarrow>
         (let ctx = WithValue (Context r1) requestIDKey (AnyString reqID)
          in next w (WithContext r1 ctx) s1))"

subsection \<open>Observing the calls of the middleware\<close>

text \<open>
  To say how often and in which order the middleware calls its two arguments, each is
  wrapped so that a call of it appends an event to a trace: the request it was called on
  and, for the handler, the writer. The trace is out of reach of the wrapped functions,
  which run on the second component of the state only.
\<close>

datatype ('w, 'k, 'v) event =
    GenerateCalled "('k, 'v) Request"
  | HandlerCalled 'w "('k, 'v) Request"

definition traced_fn ::
  "('k, 'v, 'st) RequestIDFunc \<Rightarrow> ('k, 'v, ('w, 'k, 'v) event list \<times> 'st) RequestIDFunc" where
  "traced_fn fn = (\<lambda>r (tr, u).
     case fn r u of (res, r1, u') \<Rightarrow> (res, r1, (tr @ [GenerateCalled r], u')))"

definition traced_next ::
  "('w, 'k, 'v, 'st) Handler \<Rightarrow> ('w, 'k, 'v, ('w, 'k, 'v) event list \<times> 'st) Handler" where
  "traced_next next = (\<lambda>w r (tr, u).
     case next w r u of (res, u') \<Rightarrow> (res, (tr @ [HandlerCalled w r], u')))"

section \<open>Package problem: the problem detail response\<close>

subsection \<open>The base struct and what encoding/json makes of it\<close>

text \<open>
  \<^verbatim>\<open>const contentType = "application/problem+json"\<close> and the struct \<^verbatim>\<open>Problem\<close>. A Go
  \<^verbatim>\<open>string\<close> is a sequence of bytes, as \<open>string\<close> is here. \<^verbatim>\<open>Status\<close> is an \<^verbatim>\<open>int\<close>; no
  arithmetic is done on it, it is only compared with zero and printed.
\<close>

definition contentType :: string where
  "contentType = ''application/problem+json''"

record Problem =
  Type :: string
  Title :: string
  Status :: int
  Detail :: string
  Instance :: string

definition byte :: "char \<Rightarrow> nat" where
  "byte c = of_char c"

definition dquote :: char where
  "dquote = CHR 0x22"

definition backslash :: char where
  "backslash = CHR 0x5C"

definition hex :: string where
  "hex = ''0123456789abcdef''"

text \<open>\<^verbatim>\<open>strconv.AppendInt(b, i, 10)\<close>: decimal digits, with a minus sign below zero.\<close>

fun formatBits :: "nat \<Rightarrow> string" where
  "formatBits n = (if n < 10 then [hex ! n] else formatBits (n div 10) @ [hex ! (n mod 10)])"

definition AppendInt :: "int \<Rightarrow> string" where
  "AppendInt i = (if i < 0 then CHR ''-'' # formatBits (nat (- i)) else formatBits (nat i))"

text \<open>
  \<^verbatim>\<open>utf8.DecodeRuneInString\<close>: the rune at the head of a string and the number of bytes it
  takes; \<^verbatim>\<open>(RuneError, 1)\<close> for a byte sequence that is not valid UTF-8. The table
  \<^verbatim>\<open>first\<close> gives, for a leading byte, the size of the encoding and the range accepted for
  the second byte.
\<close>

definition RuneError :: nat where
  "RuneError = 0xFFFD"

definition first :: "nat \<Rightarrow> (nat \<times> nat \<times> nat) option" where
  "first s0 =
     (if 0xC2 \<le> s0 \<and> s0 \<le> 0xDF then Some (2, 0x80, 0xBF)
      else if s0 = 0xE0 then Some (3, 0xA0, 0xBF)
      else if 0xE1 \<le> s0 \<and> s0 \<le> 0xEC then Some (3, 0x80, 0xBF)
      else if s0 = 0xED then Some (3, 0x80, 0x9F)
      else if 0xEE \<le> s0 \<and> s0 \<le> 0xEF then Some (3, 0x80, 0xBF)
      else if s0 = 0xF0 then Some (4, 0x90, 0xBF)
      else if 0xF1 \<le> s0 \<and> s0 \<le> 0xF3 then Some (4, 0x80, 0xBF)
      else if s0 = 0xF4 then Some (4, 0x80, 0x8F)
      else None)"

definition DecodeRuneInString :: "string \<Rightarrow> nat \<times> nat" where
  "DecodeRuneInString s =
     (case s of
        [] \<Rightarrow> (RuneError, 0)
      | c0 # rest \<Rightarrow>
          (let s0 = byte c0 in
           if s0 < 0x80 then (s0, 1)
           else case first s0 of
             None \<Rightarrow> (RuneError, 1)
           | Some (sz, lo, hi) \<Rightarrow>
               if length s < sz then (RuneError, 1)
               else let s1 = byte (rest ! 0) in
                 if s1 < lo \<or> hi < s1 then (RuneError, 1)
                 else if sz \<le> 2 then ((s0 mod 32) * 64 + s1 mod 64, 2)
                 else let s2 = byte (rest ! 1) in
                   if s2 < 0x80 \<or> 0xBF < s2 then (RuneError, 1)
                   else if sz \<le> 3 then
                     ((s0 mod 16) * 4096 + (s1 mod 64) * 64 + s2 mod 64, 3)
                   else let s3 = byte (rest ! 2) in
                     if s3 < 0x80 \<or> 0xBF < s3 then (RuneError, 1)
                     else ((s0 mod 8) * 262144 + (s1 mod 64) * 4096
                            + (s2 mod 64) * 64 + s3 mod 64, 4)))"

text \<open>
  The string encoder of encoding/json (\<^verbatim>\<open>appendString\<close>) with HTML escaping on, which is
  what a new \<^verbatim>\<open>json.Encoder\<close> uses. \<^verbatim>\<open>htmlSafeSet\<close> holds the bytes from the space to
  \<^verbatim>\<open>0x7f\<close> except the double quote, the backslash and the three characters
  \<^verbatim>\<open>& < >\<close>.
\<close>

definition htmlSafeSet :: "char \<Rightarrow> bool" where
  "htmlSafeSet b =
     (0x20 \<le> byte b \<and> byte b < 0x80 \<and> b \<noteq> dquote \<and> b \<noteq> backslash
      \<and> b \<noteq> CHR ''&'' \<and> b \<noteq> CHR ''<'' \<and> b \<noteq> CHR ''>'')"

definition escapeByte :: "char \<Rightarrow> string" where
  "escapeByte b =
     (if b = backslash \<or> b = dquote then [backslash, b]
      else if b = CHR 0x08 then [backslash, CHR ''b'']
      else if b = CHR 0x0C then [backslash, CHR ''f'']
      else if b = CHR 0x0A then [backslash, CHR ''n'']
      else if b = CHR 0x0D then [backslash, CHR ''r'']
      else if b = CHR 0x09 then [backslash, CHR ''t'']
      else [backslash, CHR ''u'', CHR ''0'', CHR ''0'',
            hex ! (byte b div 16), hex ! (byte b mod 16)])"

fun escapeString :: "string \<Rightarrow> string" where
  "escapeString [] = []"
| "escapeString (b # bs) =
     (if byte b < 0x80 then
        (if htmlSafeSet b then [b] else escapeByte b) @ escapeString bs
      else case DecodeRuneInString (take 4 (b # bs)) of (c, sz) \<Rightarrow>
        if c = RuneError \<and> sz = 1 then
          [backslash, CHR ''u'', CHR ''f'', CHR ''f'', CHR ''f'', CHR ''d''] @ escapeString bs
        else if c = 0x2028 \<or> c = 0x2029 then
          [backslash, CHR ''u'', CHR ''2'', CHR ''0'', CHR ''2'', hex ! (c mod 16)]
            @ escapeString (drop (sz - 1) bs)
        else take sz (b # bs) @ escapeString (drop (sz - 1) bs))"

definition appendString :: "string \<Rightarrow> string" where
  "appendString s = dquote # escapeString s @ [dquote]"

text \<open>
  The values the fields of \<^verbatim>\<open>Problem\<close> hold, the test \<^verbatim>\<open>isEmptyValue\<close> behind
  \<^verbatim>\<open>omitempty\<close>, and the encoder of each kind of value.
\<close>

datatype go_value = GoString string | GoInt int

fun isEmptyValue :: "go_value \<Rightarrow> bool" where
  "isEmptyValue (GoString s) = (length s = 0)"
| "isEmptyValue (GoInt i) = (i = 0)"

fun encodeValue :: "go_value \<Rightarrow> string" where
  "encodeValue (GoString s) = appendString s"
| "encodeValue (GoInt i) = AppendInt i"

text \<open>
  A struct field as encoding/json sees it: the name and the \<^verbatim>\<open>omitempty\<close> option of its
  tag, and its value. The fields of \<^verbatim>\<open>Problem\<close> in the order of their declaration.
\<close>

type_synonym field = "string \<times> bool \<times> go_value"

definition Problem_fields :: "Problem \<Rightarrow> field list" where
  "Problem_fields p =
     [(''type'', True, GoString (Type p)),
      (''title'', True, GoString (Title p)),
      (''status'', True, GoInt (Status p)),
      (''detail'', True, GoString (Detail p)),
      (''instance'', True, GoString (Instance p))]"

text \<open>
  The loop of \<^verbatim>\<open>structEncoder.encode\<close>: \<open>next\<close> is the byte to write before the next
  field that is not skipped, an opening brace at first and a comma afterwards.
\<close>

fun structEncoder :: "char \<Rightarrow> field list \<Rightarrow> string" where
  "structEncoder next [] = (if next = CHR ''{'' then ''{}'' else ''}'')"
| "structEncoder next ((name, omitEmpty, fv) # fs) =
     (if omitEmpty \<and> isEmptyValue fv then structEncoder next fs
      else next # dquote # name @ [dquote, CHR '':''] @ encodeValue fv
             @ structEncoder (CHR '','') fs)"

datatype error = MarshalError string | ErrBodyNotAllowed | TransportError string

text \<open>\<^verbatim>\<open>json.Marshal\<close> at a \<^verbatim>\<open>Problem\<close>: strings and integers always encode.\<close>

definition marshal_Problem :: "Problem \<Rightarrow> error + string" where
  "marshal_Problem p = Inr (structEncoder (CHR ''{'') (Problem_fields p))"

text \<open>
  The members a struct contributes to its JSON object, which are the fields the loop does
  not skip, and the text of a JSON object with given members.
\<close>

fun emitted :: "field list \<Rightarrow> (string \<times> go_value) list" where
  "emitted [] = []"
| "emitted ((name, omitEmpty, fv) # fs) =
     (if omitEmpty \<and> isEmptyValue fv then emitted fs else (name, fv) # emitted fs)"

definition json_member :: "string \<times> go_value \<Rightarrow> string" where
  "json_member m = dquote # fst m @ [dquote, CHR '':''] @ encodeValue (snd m)"

fun json_members :: "(string \<times> go_value) list \<Rightarrow> string" where
  "json_members [] = []"
| "json_members [m] = json_member m"
| "json_members (m # ms) = json_member m @ CHR '','' # json_members ms"

definition json_object :: "(string \<times> go_value) list \<Rightarrow> string" where
  "json_object ms = CHR ''{'' # json_members ms @ ''}''"

subsection \<open>http.Header and http.ResponseWriter\<close>

text \<open>
  \<^verbatim>\<open>Header.Set\<close> replaces the values under the canonical form of the key.
  \<^verbatim>\<open>textproto.CanonicalMIMEHeaderKey\<close> leaves a key with a byte that is not a token
  character as it is, and otherwise makes the first letter and every letter after a hyphen
  upper case and the others lower case.
\<close>

definition validHeaderFieldByte :: "char \<Rightarrow> bool" where
  "validHeaderFieldByte c =
     (let b = byte c in
        (0x30 \<le> b \<and> b \<le> 0x39) \<or> (0x41 \<le> b \<and> b \<le> 0x5A) \<or> (0x61 \<le> b \<and> b \<le> 0x7A)
        \<or> b \<in> {0x21, 0x23, 0x24, 0x25, 0x26, 0x27, 0x2A, 0x2B, 0x2D, 0x2E,
                 0x5E, 0x5F, 0x60, 0x7C, 0x7E})"

fun canonicalize :: "bool \<Rightarrow> string \<Rightarrow> string" where
  "canonicalize upper [] = []"
| "canonicalize upper (c # cs) =
     (let c' = (if upper \<and> 0x61 \<le> byte c \<and> byte c \<le> 0x7A then char_of (byte c - 32)
                else if \<not> upper \<and> 0x41 \<le> byte c \<and> byte c \<le> 0x5A then char_of (byte c + 32)
                else c)
      in c' # canonicalize (c' = CHR ''-'') cs)"

definition CanonicalMIMEHeaderKey :: "string \<Rightarrow> string" where
  "CanonicalMIMEHeaderKey s = (if list_all validHeaderFieldByte s then canonicalize True s else s)"

definition Header_Set :: "Header \<Rightarrow> string \<Rightarrow> string \<Rightarrow> Header" where
  "Header_Set h k v = h(CanonicalMIMEHeaderKey k \<mapsto> [v])"

text \<open>
  \<^verbatim>\<open>http.ResponseWriter\<close> is an interface. The writer here is one of the two writers of
  the standard library, the one of the net/http server (\<open>server\<close>) or the recorder of
  net/http/httptest. Both have a header map that stays open to changes, and a status line
  that the first \<^verbatim>\<open>WriteHeader\<close> writes, once, together with a snapshot of the header map;
  both panic on a code that has not three digits (\<^verbatim>\<open>checkWriteHeaderCode\<close>), and both
  refuse a body after a status that admits none (\<^verbatim>\<open>bodyAllowedForStatus\<close>). They differ at
  a code from 100 to 199 other than 101: the server sends it as an interim response, with
  the header map as it is, and leaves the status line open; the recorder takes it as the
  status.

  What is below the writer is a parameter: \<open>transport\<close> says, from the header and the
  status sent, the body sent so far and the bytes to write, what a body write returns and
  which bytes get out. The server sends nothing of a write it refuses; whether the recorder
  keeps the bytes of such a write in its buffer is a parameter too (\<open>keepsRefused\<close>).
  \<open>calls\<close> records the calls of the three methods in their order.
\<close>

datatype call = CallHeaderSet string string | CallWriteHeader int | CallWrite string

record ResponseWriter =
  server :: bool
  HeaderMap :: Header
  wroteHeader :: bool
  Code :: int
  snapHeader :: Header
  interim :: "(int \<times> Header) list"
  BodyBytes :: string
  transport :: "Header \<Rightarrow> int \<Rightarrow> string \<Rightarrow> string \<Rightarrow> (nat \<times> error option) \<times> string"
  keepsRefused :: bool
  calls :: "call list"

text \<open>\<^verbatim>\<open>w.Header().Set(key, value)\<close>\<close>

definition ResponseWriter_Header_Set :: "string \<Rightarrow> string \<Rightarrow> ResponseWriter \<Rightarrow> ResponseWriter" where
  "ResponseWriter_Header_Set k v w =
     w\<lparr>HeaderMap := Header_Set (HeaderMap w) k v, calls := calls w @ [CallHeaderSet k v]\<rparr>"

definition bodyAllowedForStatus :: "int \<Rightarrow> bool" where
  "bodyAllowedForStatus status =
     (if 100 \<le> status \<and> status \<le> 199 then False
      else if status = 204 then False
      else if status = 304 then False
      else True)"

definition writeHeader :: "int \<Rightarrow> ResponseWriter \<Rightarrow> unit res \<times> ResponseWriter" where
  "writeHeader code w =
     (if wroteHeader w then (Ok (), w)
      else if code < 100 \<or> code > 999 then
        (Panics (''invalid WriteHeader code '' @ AppendInt code), w)
      else if server w \<and> 100 \<le> code \<and> code \<le> 199 \<and> code \<noteq> 101 then
        (Ok (), w\<lparr>interim := interim w @ [(code, HeaderMap w)]\<rparr>)
      else (Ok (), w\<lparr>wroteHeader := True, Code := code, snapHeader := HeaderMap w\<rparr>))"

text \<open>\<^verbatim>\<open>w.WriteHeader(code)\<close>\<close>

definition WriteHeader :: "int \<Rightarrow> ResponseWriter \<Rightarrow> unit res \<times> ResponseWriter" where
  "WriteHeader code w = writeHeader code (w\<lparr>calls := calls w @ [CallWriteHeader code]\<rparr>)"

text \<open>
  \<^verbatim>\<open>w.Write(buf)\<close> writes the status line with code 200 first when none was written, and
  returns the number of bytes written and an error: \<^verbatim>\<open>http.ErrBodyNotAllowed\<close> when the
  status admits no body, and what the transport returns otherwise. The server returns at
  once on an empty buffer. (When no status line was written, the writers also guess a
  \<^verbatim>\<open>Content-Type\<close> from the bytes if the header map has none; \<open>SendProblem\<close> sets the header
  before it writes, so the guess is left out.)
\<close>

definition Write :: "string \<Rightarrow> ResponseWriter \<Rightarrow> (nat \<times> error option) \<times> ResponseWriter" where
  "Write buf w =
     (let w0 = w\<lparr>calls := calls w @ [CallWrite buf]\<rparr>;
          w1 = snd (writeHeader 200 w0)
      in if server w1 \<and> length buf = 0 then ((0, None), w1)
         else if \<not> bodyAllowedForStatus (Code w1) then
           ((0, Some ErrBodyNotAllowed),
            if \<not> server w1 \<and> keepsRefused w1 then w1\<lparr>BodyBytes := BodyBytes w1 @ buf\<rparr>
            else w1)
         else case transport w1 (snapHeader w1) (Code w1) (BodyBytes w1) buf of
                (result, out) \<Rightarrow> (result, w1\<lparr>BodyBytes := BodyBytes w1 @ out\<rparr>))"

text \<open>
  \<^verbatim>\<open>httptest.NewRecorder()\<close>: nothing set, nothing written, and a buffer below that takes
  every byte. \<open>NewResponse\<close> is the writer the server hands to a handler, on a connection
  that takes every byte.
\<close>

definition NewRecorder :: ResponseWriter where
  "NewRecorder =
     \<lparr>server = False, HeaderMap = Map.empty, wroteHeader = False, Code = 200,
      snapHeader = Map.empty, interim = [], BodyBytes = [],
      transport = (\<lambda>h c sent buf. ((length buf, None), buf)), keepsRefused = True,
      calls = []\<rparr>"


subsection \<open>json.Encoder and SendProblem\<close>

text \<open>
  \<^verbatim>\<open>problem interface{}\<close> is any Go value; \<open>marshal\<close> is what encoding/json makes of it: the
  text, an error, or a panic of the value's own \<^verbatim>\<open>MarshalJSON\<close> or \<^verbatim>\<open>MarshalText\<close>, which
  encoding/json lets through. \<^verbatim>\<open>Encode\<close> of a new encoder marshals the value, appends a
  newline and hands the whole buffer to one \<^verbatim>\<open>Write\<close>, whose error it returns; when
  marshalling fails it writes nothing.
\<close>

definition Encode ::
  "('p \<Rightarrow> (error + string) res) \<Rightarrow> ResponseWriter \<Rightarrow> 'p
     \<Rightarrow> error option res \<times> ResponseWriter" where
  "Encode marshal w v =
     (case marshal v of
        Panics msg \<Rightarrow> (Panics msg, w)
      | Ok (Inl err) \<Rightarrow> (Ok (Some err), w)
      | Ok (Inr b) \<Rightarrow> (case Write (b @ [CHR 0x0A]) w of ((n, err), w') \<Rightarrow> (Ok err, w')))"

definition SendProblem ::
  "('p \<Rightarrow> (error + string) res) \<Rightarrow> ResponseWriter \<Rightarrow> int \<Rightarrow> 'p
     \<Rightarrow> error option res \<times> ResponseWriter" where
  "SendProblem marshal w statusCode problem =
     (let w1 = ResponseWriter_Header_Set ''Content-Type'' contentType w in
      case WriteHeader statusCode w1 of
        (Panics msg, w2) \<Rightarrow> (Panics msg, w2)
      | (Ok u, w2) \<Rightarrow> Encode marshal w2 problem)"

text \<open>
  The marshalling of a \<^verbatim>\<open>Problem\<close> as \<open>SendProblem\<close> meets it: the struct has no
  marshalling method of its own, so nothing panics.
\<close>

definition Marshal_Problem :: "Problem \<Rightarrow> (error + string) res" where
  "Marshal_Problem p = Ok (marshal_Problem p)"

section \<open>Properties of the request identifier\<close>

lemma Value_no_key: "k \<notin> ctx_keys c \<Longrightarrow> Value c k = AnyNil"
  by (induction c) auto

lemma RequestID_WithContext:
  "RequestID (WithContext r (WithValue c requestIDKey (AnyString x))) = Ok x"
  by (simp add: RequestID_def WithContext_def Context_def)

lemma RequestIDMiddleware_returns:
  "fn r s = (Ok reqID, r1, s1) \<Longrightarrow>
   RequestIDMiddleware next fn w r s =
     next w (WithContext r1 (WithValue (Context r1) requestIDKey (AnyString reqID))) s1"
  by (simp add: RequestIDMiddleware_def)

text \<open>
  Claim C1. When the generator returns the string \<open>reqID\<close> for a request, whatever else it
  does to the request, the middleware runs the wrapped handler, whichever it is, on a
  request \<open>r'\<close> for which \<open>RequestID\<close> returns exactly \<open>reqID\<close>. With a generator that
  returns the literal \<^verbatim>\<open>abc-123\<close>, a handler that records what \<open>RequestID\<close> gives it
  records \<^verbatim>\<open>abc-123\<close>.
\<close>

theorem RequestID_in_wrapped_handler:
  fixes fn :: "('k, 'v, 'st) RequestIDFunc"
  assumes "fn r s = (Ok reqID, r1, s1)"
  shows "\<exists>r'. RequestID r' = Ok reqID
           \<and> (\<forall>(next :: ('w, 'k, 'v, 'st) Handler) w.
                 RequestIDMiddleware next fn w r s = next w r' s1)"
proof (intro exI conjI allI)
  show "RequestID (WithContext r1 (WithValue (Context r1) requestIDKey (AnyString reqID)))
          = Ok reqID"
    by (rule RequestID_WithContext)
next
  fix "next" :: "('w, 'k, 'v, 'st) Handler" and w
  show "RequestIDMiddleware next fn w r s
          = next w (WithContext r1 (WithValue (Context r1) requestIDKey (AnyString reqID))) s1"
    using assms by (rule RequestIDMiddleware_returns)
qed

theorem RequestID_in_wrapped_handler_witness:
  "RequestIDMiddleware (\<lambda>w r seen. (Ok (), seen @ [RequestID r]))
       (\<lambda>r seen. (Ok ''abc-123'', r, seen)) ()
       \<lparr>Method = ''GET'', URL = ''/'', Header = Map.empty, Body = [],
        ctx = (None :: (string, unit) go_context option)\<rparr> []
     = (Ok (), [Ok ''abc-123''])"
proof -
  let ?fn = "\<lambda>(r :: (string, unit) Request) (seen :: string res list).
               (Ok ''abc-123'', r, seen)"
  let ?r = "\<lparr>Method = ''GET'', URL = ''/'', Header = Map.empty, Body = [],
        ctx = (None :: (string, unit) go_context option)\<rparr>"
  have "?fn ?r [] = (Ok ''abc-123'', ?r, [])" by simp
  from RequestID_in_wrapped_handler [of ?fn ?r "[]" "''abc-123''" ?r "[]", OF this]
  obtain r' where r': "RequestID r' = Ok ''abc-123''"
    and run: "\<And>(next :: (unit, string, unit, string res list) Handler) w.
                 RequestIDMiddleware next ?fn w ?r [] = next w r' []"
    by blast
  show ?thesis
    by (simp add: run r')
qed

text \<open>
  Claim C2. On a request whose context holds no value under the private key, which is
  every request the middleware never populated, \<open>RequestID\<close> panics on its type
  assertion, always with the same message; it returns no string, empty or not.
\<close>

theorem RequestID_without_middleware:
  assumes "requestIDKey \<notin> ctx_keys (Context r)"
  shows "RequestID r = Panics ''interface conversion: interface {} is nil, not string''
         \<and> (\<forall>s. RequestID r \<noteq> Ok s)"
  using Value_no_key [OF assms] by (simp add: RequestID_def)

theorem RequestID_without_middleware_witness:
  "requestIDKey \<notin> ctx_keys (Context \<lparr>Method = ''GET'', URL = ''/'', Header = Map.empty, Body = [],
        ctx = Some (WithCancel (WithValue Background (ForeignKey ''user'')
                                 (AnyString ''bob'' :: unit any)))\<rparr>)
   \<and> RequestID \<lparr>Method = ''GET'', URL = ''/'', Header = Map.empty, Body = [],
        ctx = Some (WithCancel (WithValue Background (ForeignKey ''user'')
                                 (AnyString ''bob'' :: unit any)))\<rparr>
     = Panics ''interface conversion: interface {} is nil, not string''"
proof -
  let ?r = "\<lparr>Method = ''GET'', URL = ''/'', Header = Map.empty, Body = [],
        ctx = Some (WithCancel (WithValue Background (ForeignKey ''user'')
                                 (AnyString ''bob'' :: unit any)))\<rparr>"
  have h: "requestIDKey \<notin> ctx_keys (Context ?r)"
    by (simp add: Context_def)
  show ?thesis using h RequestID_without_middleware [OF h] by simp
qed

text \<open>
  Claim C8. Handling one request, the middleware calls the generator exactly once, on that
  request, and before the wrapped handler: the events it adds to the trace are one call of
  the generator, followed by one call of the handler when the generator returned and by
  nothing when it panicked.
\<close>

theorem generator_called_once_before_handler:
  "fst (snd (RequestIDMiddleware (traced_next next) (traced_fn fn) w r (tr, u))) =
     tr @ GenerateCalled r #
       (case fn r u of
          (Panics msg, r1, u1) \<Rightarrow> []
        | (Ok reqID, r1, u1) \<Rightarrow>
            [HandlerCalled w
               (WithContext r1 (WithValue (Context r1) requestIDKey (AnyString reqID)))])"
  by (auto simp: RequestIDMiddleware_def traced_fn_def traced_next_def Let_def
           split: prod.splits res.splits)

theorem generator_called_once_before_handler_witness:
  "fst (snd (RequestIDMiddleware
               (traced_next (\<lambda>w r (n :: nat). (Ok (), n)))
               (traced_fn (\<lambda>r n. (Ok (AppendInt (int n)), r, Suc n))) ()
               \<lparr>Method = ''GET'', URL = ''/'', Header = Map.empty, Body = [],
        ctx = (None :: (string, unit) go_context option)\<rparr> ([], 41)))
     = [GenerateCalled \<lparr>Method = ''GET'', URL = ''/'', Header = Map.empty, Body = [], ctx = None\<rparr>,
        HandlerCalled () \<lparr>Method = ''GET'', URL = ''/'', Header = Map.empty, Body = [],
                           ctx = Some (WithValue Background requestIDKey (AnyString ''41''))\<rparr>]"
  using generator_called_once_before_handler
          [of "\<lambda>w r (n :: nat). (Ok (), n)" "\<lambda>r n. (Ok (AppendInt (int n)), r, Suc n)" "()"
              "\<lparr>Method = ''GET'', URL = ''/'', Header = Map.empty, Body = [],
        ctx = (None :: (string, unit) go_context option)\<rparr>" "[]" 41]
  by (simp add: WithContext_def Context_def AppendInt_def hex_def)

text \<open>
  Claim C9, as the code has it. The middleware itself changes nothing but the context: the
  wrapped handler is run on the same response writer and on a request that has the
  method, URL, header and body of the request as the generator left it, and under every
  key other than the private key its context yields what the context of that request
  yields. These are the ones of the inbound request when the generator left the request
  as it was. A generator that changes the request it is given, say by setting a header on
  it, changes what the handler receives.
\<close>

theorem middleware_frame:
  fixes fn :: "('k, 'v, 'st) RequestIDFunc"
  assumes "fn r s = (Ok reqID, r1, s1)"
  shows "\<exists>r'. (\<forall>(next :: ('w, 'k, 'v, 'st) Handler) w.
                 RequestIDMiddleware next fn w r s = next w r' s1)
           \<and> Method r' = Method r1 \<and> URL r' = URL r1 \<and> Header r' = Header r1
           \<and> Body r' = Body r1
           \<and> (\<forall>k. k \<noteq> requestIDKey \<longrightarrow> Value (Context r') k = Value (Context r1) k)
           \<and> (r1 = r \<longrightarrow>
                Method r' = Method r \<and> URL r' = URL r \<and> Header r' = Header r
                \<and> Body r' = Body r
                \<and> (\<forall>k. k \<noteq> requestIDKey \<longrightarrow> Value (Context r') k = Value (Context r) k))"
proof (intro exI conjI allI impI)
  fix "next" :: "('w, 'k, 'v, 'st) Handler" and w
  show "RequestIDMiddleware next fn w r s
          = next w (WithContext r1 (WithValue (Context r1) requestIDKey (AnyString reqID))) s1"
    using assms by (rule RequestIDMiddleware_returns)
qed (simp_all add: WithContext_def Context_def)

theorem middleware_frame_witness:
  "RequestIDMiddleware
       (\<lambda>w r seen. (Ok (), seen @ [(w, Method r, URL r, Body r, Header r ''Accept'',
                                     Value (Context r) (ForeignKey ''user''))]))
       (\<lambda>r seen. (Ok ''abc-123'', r, seen)) (7 :: nat)
       \<lparr>Method = ''GET'', URL = ''/x'', Header = [''Accept'' \<mapsto> [''*/*'']], Body = ''hello'',
        ctx = Some (WithValue Background (ForeignKey ''user'') (AnyString ''bob'' :: unit any))\<rparr> []
     = (Ok (), [(7, ''GET'', ''/x'', ''hello'', Some [''*/*''], AnyString ''bob'')])"
proof -
  let ?fn = "\<lambda>(r :: (string, unit) Request)
               (seen :: (nat \<times> string \<times> string \<times> string \<times> string list option \<times> unit any) list).
               (Ok ''abc-123'', r, seen)"
  let ?r = "\<lparr>Method = ''GET'', URL = ''/x'', Header = [''Accept'' \<mapsto> [''*/*'']], Body = ''hello'',
        ctx = Some (WithValue Background (ForeignKey ''user'') (AnyString ''bob'' :: unit any))\<rparr>"
  have "?fn ?r [] = (Ok ''abc-123'', ?r, [])" by simp
  from middleware_frame [of ?fn ?r "[]" "''abc-123''" ?r "[]", OF this]
  obtain r' where
    run: "\<And>(next :: (nat, string, unit,
                 (nat \<times> string \<times> string \<times> string \<times> string list option \<times> unit any) list) Handler) w.
                 RequestIDMiddleware next ?fn w ?r [] = next w r' []"
    and same: "Method r' = Method ?r" "URL r' = URL ?r" "Header r' = Header ?r" "Body r' = Body ?r"
    and vals: "\<And>k. k \<noteq> requestIDKey \<Longrightarrow> Value (Context r') k = Value (Context ?r) k"
    by blast
  have "Value (Context r') (ForeignKey ''user'') = AnyString ''bob''"
    using vals [of "ForeignKey ''user''"] by (simp add: Context_def)
  then show ?thesis
    using same by (simp add: run)
qed

theorem middleware_frame_counterexample:
  "Header \<lparr>Method = ''GET'', URL = ''/'', Header = Map.empty, Body = [],
        ctx = (None :: (string, unit) go_context option)\<rparr> ''X-Request-Id'' = None
   \<and> RequestIDMiddleware
       (\<lambda>w r seen. (Ok (), seen @ [Header r ''X-Request-Id'']))
       (\<lambda>r seen. (Ok ''abc-123'',
                    r\<lparr>Header := Header_Set (Header r) ''X-Request-Id'' ''abc-123''\<rparr>, seen)) ()
       \<lparr>Method = ''GET'', URL = ''/'', Header = Map.empty, Body = [],
        ctx = (None :: (string, unit) go_context option)\<rparr> []
     = (Ok (), [Some [''abc-123'']])"
  by (simp add: RequestIDMiddleware_def WithContext_def Context_def Header_Set_def
        CanonicalMIMEHeaderKey_def validHeaderFieldByte_def byte_def Let_def)

text \<open>
  Claim C10. When the generator returns the empty string, the context of the request the
  wrapped handler runs on holds the empty string under the private key, and \<open>RequestID\<close>
  returns the empty string there; it does not panic.
\<close>

theorem empty_identifier_is_success:
  fixes fn :: "('k, 'v, 'st) RequestIDFunc"
  assumes "fn r s = (Ok [], r1, s1)"
  shows "\<exists>r'. (\<forall>(next :: ('w, 'k, 'v, 'st) Handler) w.
                 RequestIDMiddleware next fn w r s = next w r' s1)
           \<and> Value (Context r') requestIDKey = AnyString []
           \<and> RequestID r' = Ok []"
proof (intro exI conjI allI)
  fix "next" :: "('w, 'k, 'v, 'st) Handler" and w
  show "RequestIDMiddleware next fn w r s
          = next w (WithContext r1 (WithValue (Context r1) requestIDKey (AnyString []))) s1"
    using assms by (rule RequestIDMiddleware_returns)
next
  show "Value (Context (WithContext r1 (WithValue (Context r1) requestIDKey (AnyString []))))
          requestIDKey = AnyString []"
    by (simp add: WithContext_def Context_def)
next
  show "RequestID (WithContext r1 (WithValue (Context r1) requestIDKey (AnyString []))) = Ok []"
    by (rule RequestID_WithContext)
qed

theorem empty_identifier_is_success_witness:
  "RequestIDMiddleware (\<lambda>w r seen. (Ok (), seen @ [RequestID r]))
       (\<lambda>r seen. (Ok [], r, seen)) ()
       \<lparr>Method = ''GET'', URL = ''/'', Header = Map.empty, Body = [],
        ctx = (None :: (string, unit) go_context option)\<rparr> []
     = (Ok (), [Ok []])"
proof -
  let ?fn = "\<lambda>(r :: (string, unit) Request) (seen :: string res list). (Ok [], r, seen)"
  let ?r = "\<lparr>Method = ''GET'', URL = ''/'', Header = Map.empty, Body = [],
        ctx = (None :: (string, unit) go_context option)\<rparr>"
  have "?fn ?r [] = (Ok [], ?r, [])" by simp
  from empty_identifier_is_success [of ?fn ?r "[]" ?r "[]", OF this]
  obtain r' where r': "RequestID r' = Ok []"
    and run: "\<And>(next :: (unit, string, unit, string res list) Handler) w.
                 RequestIDMiddleware next ?fn w ?r [] = next w r' []"
    by blast
  show ?thesis
    by (simp add: run r')
qed

section \<open>Properties of the problem detail response\<close>

subsection \<open>The methods of the response writer\<close>

lemma fst_writeHeader:
  "fst (writeHeader code w) =
     (if \<not> wroteHeader w \<and> (code < 100 \<or> 999 < code)
      then Panics (''invalid WriteHeader code '' @ AppendInt code) else Ok ())"
  by (simp add: writeHeader_def)

lemma writeHeader_keeps:
  "calls (snd (writeHeader code w)) = calls w"
  "HeaderMap (snd (writeHeader code w)) = HeaderMap w"
  "BodyBytes (snd (writeHeader code w)) = BodyBytes w"
  "transport (snd (writeHeader code w)) = transport w"
  "server (snd (writeHeader code w)) = server w"
  by (simp_all add: writeHeader_def)

lemma writeHeader_written:
  "wroteHeader w \<Longrightarrow> snd (writeHeader code w) = w"
  by (simp add: writeHeader_def)

lemma writeHeader_200:
  "\<not> wroteHeader w \<Longrightarrow>
   snd (writeHeader 200 w) = w\<lparr>wroteHeader := True, Code := 200, snapHeader := HeaderMap w\<rparr>"
  by (simp add: writeHeader_def)

lemma Write_keeps:
  "calls (snd (Write buf w)) = calls w @ [CallWrite buf]"
  "HeaderMap (snd (Write buf w)) = HeaderMap w"
  "wroteHeader (snd (Write buf w))"
  "interim (snd (Write buf w)) = interim w"
  by (cases "wroteHeader w";
      simp add: Write_def Let_def writeHeader_written writeHeader_200 split: prod.splits)+


lemma Write_open:
  "\<not> wroteHeader w \<Longrightarrow> Code (snd (Write buf w)) = 200"
  "\<not> wroteHeader w \<Longrightarrow> snapHeader (snd (Write buf w)) = HeaderMap w"
  by (simp_all add: Write_def Let_def writeHeader_200 split: prod.splits)


lemma CanonicalMIMEHeaderKey_Content_Type:
  "CanonicalMIMEHeaderKey ''Content-Type'' = ''Content-Type''"
  by (simp add: CanonicalMIMEHeaderKey_def validHeaderFieldByte_def byte_def Let_def)

lemma Header_Set_Content_Type:
  "Header_Set h ''Content-Type'' contentType
     = h(''Content-Type'' \<mapsto> [''application/problem+json''])"
  by (simp add: Header_Set_def CanonicalMIMEHeaderKey_Content_Type contentType_def)

text \<open>The writer as \<open>SendProblem\<close> leaves it for \<open>Encode\<close>, and the state after \<open>Encode\<close>.\<close>

lemma SendProblem_unfold:
  "SendProblem marshal w statusCode problem =
     (let w1 = (ResponseWriter_Header_Set ''Content-Type'' contentType w)
                 \<lparr>calls := calls w @ [CallHeaderSet ''Content-Type'' contentType,
                                      CallWriteHeader statusCode]\<rparr> in
      case fst (writeHeader statusCode w1) of
        Panics msg \<Rightarrow> (Panics msg, snd (writeHeader statusCode w1))
      | Ok u \<Rightarrow>
          (case marshal problem of
             Panics msg \<Rightarrow> (Panics msg, snd (writeHeader statusCode w1))
           | Ok (Inl err) \<Rightarrow> (Ok (Some err), snd (writeHeader statusCode w1))
           | Ok (Inr b) \<Rightarrow>
               (Ok (snd (fst (Write (b @ [CHR 0x0A]) (snd (writeHeader statusCode w1))))),
                snd (Write (b @ [CHR 0x0A]) (snd (writeHeader statusCode w1))))))"
  by (simp add: SendProblem_def WriteHeader_def Encode_def Let_def ResponseWriter_Header_Set_def
        split: prod.splits res.splits sum.splits)


subsection \<open>The steps of SendProblem\<close>







subsection \<open>The scenario of the specification, evaluated\<close>


lemma scenario_outcome:
  "fst (SendProblem Marshal_Problem NewRecorder 400
          \<lparr>Type = ''https://example.com/x'', Title = ''Bad'', Status = 400,
           Detail = [], Instance = []\<rparr>) = Ok None"
  by code_simp

lemma scenario_status:
  "wroteHeader (snd (SendProblem Marshal_Problem NewRecorder 400
          \<lparr>Type = ''https://example.com/x'', Title = ''Bad'', Status = 400,
           Detail = [], Instance = []\<rparr>))
   \<and> Code (snd (SendProblem Marshal_Problem NewRecorder 400
          \<lparr>Type = ''https://example.com/x'', Title = ''Bad'', Status = 400,
           Detail = [], Instance = []\<rparr>)) = 400"
  by code_simp

lemma scenario_body:
  \<open>BodyBytes (snd (SendProblem Marshal_Problem NewRecorder 400
          \<lparr>Type = ''https://example.com/x'', Title = ''Bad'', Status = 400,
           Detail = [], Instance = []\<rparr>))
     = ''{"type":"https://example.com/x","title":"Bad","status":400}'' @ [CHR 0x0A]\<close>
  by code_simp



subsection \<open>The claims about SendProblem\<close>




text \<open>
  Claim C6. Whatever the response held before, after \<open>SendProblem\<close> its header map has
  under \<^verbatim>\<open>Content-Type\<close> the single value \<^verbatim>\<open>application/problem+json\<close>: a value set
  earlier is replaced, not added to.
\<close>

theorem SendProblem_sets_content_type:
  "HeaderMap (snd (SendProblem marshal w statusCode problem)) ''Content-Type''
     = Some [''application/problem+json'']"
  by (simp add: SendProblem_unfold Let_def fst_writeHeader writeHeader_keeps Write_keeps
        ResponseWriter_Header_Set_def Header_Set_Content_Type split: res.splits sum.splits)

theorem SendProblem_sets_content_type_witness:
  "HeaderMap (ResponseWriter_Header_Set ''Content-Type'' ''text/html'' NewRecorder)
       ''Content-Type'' = Some [''text/html'']
   \<and> HeaderMap (snd (SendProblem Marshal_Problem
                       (ResponseWriter_Header_Set ''Content-Type'' ''text/html'' NewRecorder)
                       404 \<lparr>Type = [], Title = ''Not Found'', Status = 404,
                            Detail = [], Instance = []\<rparr>)) ''Content-Type''
       = Some [''application/problem+json'']"
  using SendProblem_sets_content_type [of Marshal_Problem
          "ResponseWriter_Header_Set ''Content-Type'' ''text/html'' NewRecorder"
          404 "\<lparr>Type = [], Title = ''Not Found'', Status = 404, Detail = [], Instance = []\<rparr>"]
  by (simp add: ResponseWriter_Header_Set_def Header_Set_def CanonicalMIMEHeaderKey_Content_Type)




text \<open>
  Claim C7, as the code has it. Sent with status 400 on a new response, the problem value
  of the scenario gives the status line 400 and a body that is the JSON text of the
  scenario followed by one newline, which \<^verbatim>\<open>Encode\<close> appends to every value it writes.
\<close>

theorem SendProblem_scenario:
  \<open>fst (SendProblem Marshal_Problem NewRecorder 400
          \<lparr>Type = ''https://example.com/x'', Title = ''Bad'', Status = 400,
           Detail = [], Instance = []\<rparr>) = Ok None
   \<and> wroteHeader (snd (SendProblem Marshal_Problem NewRecorder 400
          \<lparr>Type = ''https://example.com/x'', Title = ''Bad'', Status = 400,
           Detail = [], Instance = []\<rparr>))
   \<and> Code (snd (SendProblem Marshal_Problem NewRecorder 400
          \<lparr>Type = ''https://example.com/x'', Title = ''Bad'', Status = 400,
           Detail = [], Instance = []\<rparr>)) = 400
   \<and> BodyBytes (snd (SendProblem Marshal_Problem NewRecorder 400
          \<lparr>Type = ''https://example.com/x'', Title = ''Bad'', Status = 400,
           Detail = [], Instance = []\<rparr>))
        = ''{"type":"https://example.com/x","title":"Bad","status":400}'' @ [CHR 0x0A]\<close>
  using scenario_outcome scenario_status scenario_body by blast

theorem SendProblem_scenario_counterexample:
  \<open>BodyBytes (snd (SendProblem Marshal_Problem NewRecorder 400
          \<lparr>Type = ''https://example.com/x'', Title = ''Bad'', Status = 400,
           Detail = [], Instance = []\<rparr>))
     \<noteq> ''{"type":"https://example.com/x","title":"Bad","status":400}''\<close>
  by (simp add: scenario_body)

subsection \<open>The fields of Problem in the JSON text\<close>

lemma structEncoder_comma:
  "structEncoder (CHR '','') fs =
     (if emitted fs = [] then ''}'' else CHR '','' # json_members (emitted fs) @ ''}'')"
proof (induction fs)
  case Nil
  then show ?case by simp
next
  case (Cons f fs)
  obtain name omitEmpty fv where f: "f = (name, omitEmpty, fv)"
    by (cases f) auto
  show ?case
  proof (cases "emitted fs")
    case Nil
    with Cons f show ?thesis by (simp add: json_member_def)
  next
    case (Cons m ms)
    with Cons.IH f show ?thesis by (simp add: json_member_def)
  qed
qed

lemma structEncoder_brace:
  "structEncoder (CHR ''{'') fs = json_object (emitted fs)"
proof (induction fs)
  case Nil
  then show ?case by (simp add: json_object_def)
next
  case (Cons f fs)
  obtain name omitEmpty fv where f: "f = (name, omitEmpty, fv)"
    by (cases f) auto
  show ?case
  proof (cases "emitted fs")
    case Nil
    with Cons f show ?thesis
      by (simp add: json_object_def json_member_def structEncoder_comma)
  next
    case (Cons m ms)
    with Cons.IH f show ?thesis
      by (simp add: json_object_def json_member_def structEncoder_comma)
  qed
qed

text \<open>
  Claim C4. The JSON text of a \<open>Problem\<close> is the object whose members are the fields the
  encoder does not skip, and a field whose value is the zero value of its type is not
  among them: its key is absent, with no null and no empty string in its place. A value
  with only the title set gives the object with the one member \<^verbatim>\<open>title\<close>.
\<close>

theorem Problem_omits_zero_fields:
  "marshal_Problem p = Inr (json_object (emitted (Problem_fields p)))
   \<and> (Type p = [] \<longrightarrow> ''type'' \<notin> fst ` set (emitted (Problem_fields p)))
   \<and> (Title p = [] \<longrightarrow> ''title'' \<notin> fst ` set (emitted (Problem_fields p)))
   \<and> (Status p = 0 \<longrightarrow> ''status'' \<notin> fst ` set (emitted (Problem_fields p)))
   \<and> (Detail p = [] \<longrightarrow> ''detail'' \<notin> fst ` set (emitted (Problem_fields p)))
   \<and> (Instance p = [] \<longrightarrow> ''instance'' \<notin> fst ` set (emitted (Problem_fields p)))
   \<and> (Title p \<noteq> [] \<and> Type p = [] \<and> Status p = 0 \<and> Detail p = [] \<and> Instance p = [] \<longrightarrow>
        marshal_Problem p
          = Inr (CHR ''{'' # dquote # ''title'' @ [dquote, CHR '':''] @ appendString (Title p) @ ''}''))"
  by (simp add: marshal_Problem_def structEncoder_brace,
      simp add: Problem_fields_def json_object_def json_member_def)

theorem Problem_omits_zero_fields_witness:
  \<open>marshal_Problem \<lparr>Type = [], Title = ''Out of credit'', Status = 0, Detail = [], Instance = []\<rparr>
     = Inr ''{"title":"Out of credit"}''
   \<and> map fst (emitted (Problem_fields
        \<lparr>Type = [], Title = ''Out of credit'', Status = 0, Detail = [], Instance = []\<rparr>))
       = [''title'']\<close>
proof -
  have q: "appendString ''Out of credit'' = dquote # ''Out of credit'' @ [dquote]"
    by code_simp
  show ?thesis
    using Problem_omits_zero_fields
            [of "\<lparr>Type = [], Title = ''Out of credit'', Status = 0, Detail = [], Instance = []\<rparr>"]
    by (simp add: q dquote_def Problem_fields_def json_object_def json_member_def)
qed

end
